theory Spec2Isabelle
  imports Complex_Main
begin

section \<open>Benchmark report generator: \<^verbatim>\<open>scripts/generate_benchmark_report.py\<close>\<close>

text \<open>
  A shallow embedding of the class \<^verbatim>\<open>BenchmarkAnalyzer\<close> and of \<^verbatim>\<open>main\<close>.

  Conventions of the model.
  \<^item> A parsed JSON document is a value of type \<open>json\<close>; a Python \<^verbatim>\<open>dict\<close> is an
    association list in insertion order, looked up with \<open>map_of\<close>.
  \<^item> Numbers are exact: a JSON number is a rational, and \<^verbatim>\<open>+\<close>, \<^verbatim>\<open>/\<close>, \<^verbatim>\<open><=\<close> are
    the exact operations. The rounding of IEEE doubles, \<^verbatim>\<open>NaN\<close>, the infinities and
    the \<^verbatim>\<open>OverflowError\<close> of an integer too large for a double are not part of the
    model; \<^verbatim>\<open>1\<close> and \<^verbatim>\<open>1.0\<close> are the same value. The two percentile indices, where
    rounding could change which element is read, are also computed in double precision
    and shown to agree with the exact ones. Python's \<^verbatim>\<open>bool\<close> is a subclass of
    \<^verbatim>\<open>int\<close>, so \<^verbatim>\<open>true\<close> and \<^verbatim>\<open>false\<close> count as 1 and 0 wherever a number is expected.
  \<^item> An exception is a value of type \<open>exn\<close>; a method that can raise returns
    \<open>exn + 'a\<close>, with \<open>Inl\<close> for the exception.
  \<^item> Printed output is a list of lines, a line a list of tokens. A token keeps the
    value that a format specification renders, so that no digit printing is modelled.
\<close>

subsection \<open>Values, exceptions\<close>

datatype json =
    JNull
  | JBool bool
  | JNum rat
  | JStr string
  | JArr "json list"
  | JObj "(string \<times> json) list"

datatype exn =
    TypeError
  | AttributeError
  | ValueError
  | KeyError
  | IndexError
  | ZeroDivisionError
  | FileNotFoundError

definition bindE :: "exn + 'a \<Rightarrow> ('a \<Rightarrow> exn + 'b) \<Rightarrow> exn + 'b" where
  "bindE m f = (case m of Inl e \<Rightarrow> Inl e | Inr x \<Rightarrow> f x)"

text \<open>Python's truth value of a JSON value: \<^verbatim>\<open>not v\<close> is \<open>\<not> truthy v\<close>.\<close>

fun truthy :: "json \<Rightarrow> bool" where
  "truthy JNull = False"
| "truthy (JBool b) = b"
| "truthy (JNum x) = (x \<noteq> 0)"
| "truthy (JStr s) = (s \<noteq> [])"
| "truthy (JArr js) = (js \<noteq> [])"
| "truthy (JObj kvs) = (kvs \<noteq> [])"

text \<open>\<^verbatim>\<open>d.get(key, default)\<close>; only a \<^verbatim>\<open>dict\<close> has the method.\<close>

fun dict_get :: "json \<Rightarrow> string \<Rightarrow> json \<Rightarrow> exn + json" where
  "dict_get (JObj kvs) k d = Inr (case map_of kvs k of None \<Rightarrow> d | Some v \<Rightarrow> v)"
| "dict_get _ k d = Inl AttributeError"

text \<open>\<^verbatim>\<open>d[key]\<close> with a string key.\<close>

fun dict_index :: "json \<Rightarrow> string \<Rightarrow> exn + json" where
  "dict_index (JObj kvs) k = (case map_of kvs k of None \<Rightarrow> Inl KeyError | Some v \<Rightarrow> Inr v)"
| "dict_index _ k = Inl TypeError"

text \<open>\<^verbatim>\<open>d[key] = v\<close> on a \<^verbatim>\<open>dict\<close>: an existing key keeps its place, a new key goes last.\<close>

fun dict_set :: "string \<Rightarrow> json \<Rightarrow> (string \<times> json) list \<Rightarrow> (string \<times> json) list" where
  "dict_set k v [] = [(k, v)]"
| "dict_set k v (p # ps) = (if fst p = k then (k, v) # ps else p # dict_set k v ps)"

text \<open>The numeric value of a JSON value, where it has one.\<close>

fun num_of :: "json \<Rightarrow> rat option" where
  "num_of (JNum x) = Some x"
| "num_of (JBool b) = Some (if b then 1 else 0)"
| "num_of _ = None"

text \<open>
  \<^verbatim>\<open>sum(frame_times)\<close> adds the elements to 0 from the left and raises \<^verbatim>\<open>TypeError\<close> at
  the first element that is not a number. The function returns the elements read as
  numbers together with their sum, so that \<^verbatim>\<open>min\<close>, \<^verbatim>\<open>max\<close> and \<^verbatim>\<open>sorted\<close>, which run
  after \<^verbatim>\<open>sum\<close> has succeeded, work on numbers.
\<close>

fun py_sum :: "json list \<Rightarrow> exn + (rat list \<times> rat)" where
  "py_sum [] = Inr ([], 0)"
| "py_sum (j # js) =
     (case num_of j of
        None \<Rightarrow> Inl TypeError
      | Some x \<Rightarrow> bindE (py_sum js) (\<lambda>(xs, s). Inr (x # xs, x + s)))"

text \<open>
  The iterable handed to \<^verbatim>\<open>sum\<close>, \<^verbatim>\<open>len\<close>, \<^verbatim>\<open>min\<close>, \<^verbatim>\<open>max\<close> and \<^verbatim>\<open>sorted\<close>: a list gives
  its elements; a number, a boolean or \<^verbatim>\<open>None\<close> is not iterable, and the characters of
  a string or the keys of a \<^verbatim>\<open>dict\<close> cannot be added to 0.
\<close>

fun elements :: "json \<Rightarrow> exn + json list" where
  "elements (JArr js) = Inr js"
| "elements _ = Inl TypeError"

text \<open>\<^verbatim>\<open>a / b\<close>, true division.\<close>

definition py_div :: "rat \<Rightarrow> rat \<Rightarrow> exn + rat" where
  "py_div a b = (if b = 0 then Inl ZeroDivisionError else Inr (a / b))"

text \<open>
  \<^verbatim>\<open>min(xs)\<close> and \<^verbatim>\<open>max(xs)\<close>: one pass that keeps the first extremal element;
  \<^verbatim>\<open>ValueError\<close> on an empty sequence.
\<close>

fun py_min :: "rat list \<Rightarrow> exn + rat" where
  "py_min [] = Inl ValueError"
| "py_min (x # xs) = Inr (foldl (\<lambda>m y. if y < m then y else m) x xs)"

fun py_max :: "rat list \<Rightarrow> exn + rat" where
  "py_max [] = Inl ValueError"
| "py_max (x # xs) = Inr (foldl (\<lambda>m y. if y > m then y else m) x xs)"

text \<open>\<^verbatim>\<open>xs[i]\<close> with a non-negative index.\<close>

definition py_nth :: "'a list \<Rightarrow> nat \<Rightarrow> exn + 'a" where
  "py_nth xs i = (if i < length xs then Inr (xs ! i) else Inl IndexError)"

text \<open>\<^verbatim>\<open>int(n * 0.95)\<close> and \<^verbatim>\<open>int(n * 0.99)\<close> for a length \<open>n\<close>: truncation of the product.\<close>

definition p95_index :: "nat \<Rightarrow> nat" where
  "p95_index n = nat \<lfloor>rat_of_nat n * (95 / 100)\<rfloor>"

definition p99_index :: "nat \<Rightarrow> nat" where
  "p99_index n = nat \<lfloor>rat_of_nat n * (99 / 100)\<rfloor>"

subsection \<open>The analysis record and \<^verbatim>\<open>analyze_performance\<close>\<close>

text \<open>
  The dictionary that \<^verbatim>\<open>analyze_performance\<close> returns has sixteen fixed keys. The eight
  values computed from the frame times are numbers; the eight values copied from the
  metrics are whatever the input file holds.
\<close>

record analysis =
  avg_frame_time_ms :: rat
  min_frame_time_ms :: rat
  max_frame_time_ms :: rat
  p95_frame_time_ms :: rat
  p99_frame_time_ms :: rat
  avg_fps :: rat
  min_fps :: rat
  frame_count :: nat
  gpu_culling_time_ms :: json
  batch_processing_time_ms :: json
  lod_update_time_ms :: json
  streaming_time_ms :: json
  visible_instances :: json
  culled_instances :: json
  batch_count :: json
  memory_usage_mb :: json

text \<open>
  The result \<open>None\<close> is the empty dictionary \<^verbatim>\<open>{}\<close>, which is false in a condition; a
  dictionary with the sixteen keys is true.
\<close>

definition analyze_performance :: "json \<Rightarrow> exn + analysis option" where
  "analyze_performance result =
     bindE (dict_get result ''metrics'' (JObj [])) (\<lambda>metrics.
     bindE (dict_get metrics ''frame_times'' (JArr [])) (\<lambda>frame_times.
     if \<not> truthy frame_times then Inr None
     else
       bindE (elements frame_times) (\<lambda>js.
       bindE (py_sum js) (\<lambda>(times, total).
       bindE (py_div total (rat_of_nat (length times))) (\<lambda>avg_frame_time.
       bindE (py_min times) (\<lambda>min_frame_time.
       bindE (py_max times) (\<lambda>max_frame_time.
       let sorted_times = sort times in
       bindE (py_nth sorted_times (p95_index (length sorted_times))) (\<lambda>p95_frame_time.
       bindE (py_nth sorted_times (p99_index (length sorted_times))) (\<lambda>p99_frame_time.
       bindE (if avg_frame_time > 0 then py_div 1000 avg_frame_time else Inr 0) (\<lambda>avg_fps'.
       bindE (if max_frame_time > 0 then py_div 1000 max_frame_time else Inr 0) (\<lambda>min_fps'.
       bindE (dict_get metrics ''gpu_culling_time_ms'' (JNum 0)) (\<lambda>gpu.
       bindE (dict_get metrics ''batch_processing_time_ms'' (JNum 0)) (\<lambda>batch.
       bindE (dict_get metrics ''lod_update_time_ms'' (JNum 0)) (\<lambda>lod.
       bindE (dict_get metrics ''streaming_time_ms'' (JNum 0)) (\<lambda>streaming.
       bindE (dict_get metrics ''visible_instances'' (JNum 0)) (\<lambda>visible.
       bindE (dict_get metrics ''culled_instances'' (JNum 0)) (\<lambda>culled.
       bindE (dict_get metrics ''batch_count'' (JNum 0)) (\<lambda>batches.
       bindE (dict_get metrics ''memory_usage_mb'' (JNum 0)) (\<lambda>memory.
       Inr (Some \<lparr>
         avg_frame_time_ms = avg_frame_time,
         min_frame_time_ms = min_frame_time,
         max_frame_time_ms = max_frame_time,
         p95_frame_time_ms = p95_frame_time,
         p99_frame_time_ms = p99_frame_time,
         avg_fps = avg_fps',
         min_fps = min_fps',
         frame_count = length times,
         gpu_culling_time_ms = gpu,
         batch_processing_time_ms = batch,
         lod_update_time_ms = lod,
         streaming_time_ms = streaming,
         visible_instances = visible,
         culled_instances = culled,
         batch_count = batches,
         memory_usage_mb = memory
       \<rparr>))))))))))))))))))))"

subsection \<open>Printed output\<close>

text \<open>
  \<open>Lit s\<close> is literal text, \<open>Plain v\<close> the \<^verbatim>\<open>str()\<close> of a value (\<^verbatim>\<open>{v}\<close>), \<open>Fixed d x\<close>
  the number \<open>x\<close> with \<open>d\<close> decimals (\<^verbatim>\<open>{x:.2f}\<close>, \<^verbatim>\<open>{x:.1f}\<close>), \<open>Grouped x\<close> the number
  with thousands separators (\<^verbatim>\<open>{x:,}\<close>) and \<open>Message e\<close> the text of an exception.
\<close>

datatype tok =
    Lit string
  | Plain json
  | Fixed nat rat
  | Grouped rat
  | Message exn

type_synonym line = "tok list"

text \<open>
  A format specification on a value from the input file: \<^verbatim>\<open>.2f\<close> and \<^verbatim>\<open>,\<close> accept a
  number, raise \<^verbatim>\<open>ValueError\<close> on a string and \<^verbatim>\<open>TypeError\<close> on \<^verbatim>\<open>None\<close>, a list or a
  \<^verbatim>\<open>dict\<close>.
\<close>

fun format_fixed :: "nat \<Rightarrow> json \<Rightarrow> exn + tok" where
  "format_fixed d (JStr s) = Inl ValueError"
| "format_fixed d v = (case num_of v of None \<Rightarrow> Inl TypeError | Some x \<Rightarrow> Inr (Fixed d x))"

fun format_grouped :: "json \<Rightarrow> exn + tok" where
  "format_grouped (JStr s) = Inl ValueError"
| "format_grouped v = (case num_of v of None \<Rightarrow> Inl TypeError | Some x \<Rightarrow> Inr (Grouped x))"

text \<open>The three symbols of the assessment lines, as their UTF-8 bytes.\<close>

definition check_mark :: string where
  "check_mark = [CHR 0xE2, CHR 0x9C, CHR 0x93]"

definition warning_sign :: string where
  "warning_sign = [CHR 0xE2, CHR 0x9A, CHR 0xA0]"

definition ballot_x :: string where
  "ballot_x = [CHR 0xE2, CHR 0x9C, CHR 0x97]"

subsection \<open>\<^verbatim>\<open>assess_performance\<close>\<close>

record targets =
  target_fps :: rat
  warning_fps :: rat
  critical_fps :: rat
  target_frame_time_ms :: rat
  warning_frame_time_ms :: rat
  critical_frame_time_ms :: rat
  gpu_culling_budget_ms :: rat
  batch_processing_budget_ms :: rat
  lod_update_budget_ms :: rat
  streaming_budget_ms :: rat

text \<open>\<^verbatim>\<open>v <= t\<close> for a value from the input file and a number.\<close>

definition py_le :: "json \<Rightarrow> rat \<Rightarrow> exn + bool" where
  "py_le v t = (case num_of v of None \<Rightarrow> Inl TypeError | Some x \<Rightarrow> Inr (x \<le> t))"

text \<open>
  The list \<^verbatim>\<open>assessments\<close> as it stands after the six checks. The method then prints
  each element behind two spaces.
\<close>

definition assessments :: "analysis \<Rightarrow> targets \<Rightarrow> exn + string list" where
  "assessments a t =
     (let acc = [];
          avg_frame_time = avg_frame_time_ms a;
          acc = acc @ [if avg_frame_time \<le> target_frame_time_ms t
                       then check_mark @ '' Frame time: EXCELLENT''
                       else if avg_frame_time \<le> warning_frame_time_ms t
                       then warning_sign @ '' Frame time: ACCEPTABLE''
                       else ballot_x @ '' Frame time: POOR''];
          avg_fps' = avg_fps a;
          acc = acc @ [if avg_fps' \<ge> target_fps t
                       then check_mark @ '' FPS: EXCELLENT''
                       else if avg_fps' \<ge> warning_fps t
                       then warning_sign @ '' FPS: ACCEPTABLE''
                       else ballot_x @ '' FPS: POOR'']
      in
      bindE (py_le (gpu_culling_time_ms a) (gpu_culling_budget_ms t)) (\<lambda>gpu_ok.
      let acc = acc @ [if gpu_ok then check_mark @ '' GPU Culling: WITHIN BUDGET''
                       else ballot_x @ '' GPU Culling: OVER BUDGET''] in
      bindE (py_le (batch_processing_time_ms a) (batch_processing_budget_ms t)) (\<lambda>batch_ok.
      let acc = acc @ [if batch_ok then check_mark @ '' Batch Processing: WITHIN BUDGET''
                       else ballot_x @ '' Batch Processing: OVER BUDGET''] in
      bindE (py_le (lod_update_time_ms a) (lod_update_budget_ms t)) (\<lambda>lod_ok.
      let acc = acc @ [if lod_ok then check_mark @ '' LOD Updates: WITHIN BUDGET''
                       else ballot_x @ '' LOD Updates: OVER BUDGET''] in
      bindE (py_le (streaming_time_ms a) (streaming_budget_ms t)) (\<lambda>streaming_ok.
      let acc = acc @ [if streaming_ok then check_mark @ '' Streaming: WITHIN BUDGET''
                       else ballot_x @ '' Streaming: OVER BUDGET''] in
      Inr acc)))))"

definition assess_performance :: "analysis \<Rightarrow> targets \<Rightarrow> exn + line list" where
  "assess_performance a t =
     bindE (assessments a t) (\<lambda>acc. Inr (map (\<lambda>assessment. [Lit (''  '' @ assessment)]) acc))"

subsection \<open>\<^verbatim>\<open>generate_report\<close>\<close>

text \<open>The dictionary \<^verbatim>\<open>targets\<close> of \<^verbatim>\<open>generate_report\<close>.\<close>

definition report_targets :: targets where
  "report_targets = \<lparr>
     target_fps = 60,
     warning_fps = 30,
     critical_fps = 15,
     target_frame_time_ms = 1667 / 100,
     warning_frame_time_ms = 3333 / 100,
     critical_frame_time_ms = 6667 / 100,
     gpu_culling_budget_ms = 25 / 100,
     batch_processing_budget_ms = 25 / 10,
     lod_update_budget_ms = 1,
     streaming_budget_ms = 15 / 10
   \<rparr>"

text \<open>
  The body of the loop over \<^verbatim>\<open>self.results\<close>: the lines printed for one record. A
  record with an empty analysis prints nothing (\<^verbatim>\<open>continue\<close>).
\<close>

definition report_scene :: "targets \<Rightarrow> json \<Rightarrow> exn + line list" where
  "report_scene t result =
     bindE (dict_get result ''scene'' (JStr ''unknown'')) (\<lambda>scene_name.
     bindE (analyze_performance result) (\<lambda>analysis.
     case analysis of
       None \<Rightarrow> Inr []
     | Some a \<Rightarrow>
         bindE (dict_index result ''file'') (\<lambda>file.
         bindE (format_fixed 2 (gpu_culling_time_ms a)) (\<lambda>gpu.
         bindE (format_fixed 2 (batch_processing_time_ms a)) (\<lambda>batch.
         bindE (format_fixed 2 (lod_update_time_ms a)) (\<lambda>lod.
         bindE (format_fixed 2 (streaming_time_ms a)) (\<lambda>streaming.
         bindE (format_grouped (visible_instances a)) (\<lambda>visible.
         bindE (format_grouped (culled_instances a)) (\<lambda>culled.
         bindE (format_grouped (batch_count a)) (\<lambda>batches.
         bindE (format_fixed 1 (memory_usage_mb a)) (\<lambda>memory.
         bindE (assess_performance a t) (\<lambda>assessment_lines.
         Inr ([[Lit ''=== Scene: '', Plain scene_name, Lit '' ===''],
               [Lit ''File: '', Plain file],
               [Lit ''Frames: '', Plain (JNum (rat_of_nat (frame_count a)))],
               [],
               [Lit ''Frame Time Analysis:''],
               [Lit ''  Average: '', Fixed 2 (avg_frame_time_ms a), Lit ''ms''],
               [Lit ''  P95: '', Fixed 2 (p95_frame_time_ms a), Lit ''ms''],
               [Lit ''  P99: '', Fixed 2 (p99_frame_time_ms a), Lit ''ms''],
               [Lit ''  Min: '', Fixed 2 (min_frame_time_ms a), Lit ''ms''],
               [Lit ''  Max: '', Fixed 2 (max_frame_time_ms a), Lit ''ms''],
               [],
               [Lit ''FPS Analysis:''],
               [Lit ''  Average: '', Fixed 1 (avg_fps a), Lit '' FPS''],
               [Lit ''  Minimum: '', Fixed 1 (min_fps a), Lit '' FPS''],
               [],
               [Lit ''System Performance:''],
               [Lit ''  GPU Culling: '', gpu, Lit ''ms''],
               [Lit ''  Batch Processing: '', batch, Lit ''ms''],
               [Lit ''  LOD Updates: '', lod, Lit ''ms''],
               [Lit ''  Streaming: '', streaming, Lit ''ms''],
               [],
               [Lit ''Resource Usage:''],
               [Lit ''  Visible Instances: '', visible],
               [Lit ''  Culled Instances: '', culled],
               [Lit ''  Batch Count: '', batches],
               [Lit ''  Memory Usage: '', memory, Lit '' MB''],
               [],
               [Lit ''Performance Assessment:'']]
              @ assessment_lines
              @ [[], [Lit (replicate 60 (CHR ''-''))], []])))))))))))))"

fun report_loop :: "targets \<Rightarrow> json list \<Rightarrow> exn + line list" where
  "report_loop t [] = Inr []"
| "report_loop t (result # rest) =
     bindE (report_scene t result) (\<lambda>block.
     bindE (report_loop t rest) (\<lambda>blocks. Inr (block @ blocks)))"

text \<open>
  \<open>generated\<close> is the text of \<^verbatim>\<open>datetime.now().strftime(...)\<close>. The result holds the
  lines printed by a call that returns; \<open>Inl\<close> is an exception that leaves the method.
\<close>

definition generate_report :: "string \<Rightarrow> string \<Rightarrow> json list \<Rightarrow> exn + line list" where
  "generate_report results_dir generated results =
     (if results = [] then Inr [[Lit ''No benchmark results found'']]
      else
        bindE (report_loop report_targets results) (\<lambda>blocks.
        Inr ([[Lit ''=== Amp Game Engine Benchmark Report ===''],
              [Lit ''Generated: '', Lit generated],
              [Lit ''Results Directory: '', Lit results_dir],
              [Lit ''Total Benchmarks: '', Plain (JNum (rat_of_nat (length results)))],
              []]
             @ blocks)))"

subsection \<open>The results directory and \<^verbatim>\<open>load_results\<close>\<close>

text \<open>
  A file is known by what \<^verbatim>\<open>open\<close> and \<^verbatim>\<open>json.load\<close> make of it: \<open>Inr v\<close> when they
  return the document \<open>v\<close>, \<open>Inl cause\<close> when one of them raises an exception whose text
  is \<open>cause\<close> (malformed JSON, an unreadable file). A directory is the list of its
  entries in the order in which the operating system lists them; the file system maps
  the path of a directory to it, and a path that it does not map does not exist.
  Writing \<^verbatim>\<open>json.dump(v)\<close> to a file leaves a file that loads as \<open>v\<close>.
\<close>

type_synonym content = "string + json"

type_synonym directory = "(string \<times> content) list"

type_synonym filesystem = "string \<Rightarrow> directory option"

text \<open>\<^verbatim>\<open>os.path.join(d, name)\<close> for a relative \<open>name\<close>.\<close>

definition path_join :: "string \<Rightarrow> string \<Rightarrow> string" where
  "path_join d name =
     (if d = [] then name
      else if last d = CHR ''/'' then d @ name
      else d @ ''/'' @ name)"

text \<open>
  The path under which \<^verbatim>\<open>glob.glob\<close> returns the file \<open>name\<close> of the directory \<open>d\<close>:
  \<^verbatim>\<open>os.path.split\<close> takes the directory part of the pattern, without its trailing
  slashes unless it consists of slashes, and \<^verbatim>\<open>os.path.join\<close> puts the name behind it.
\<close>

definition glob_path :: "string \<Rightarrow> string \<Rightarrow> string" where
  "glob_path d name =
     path_join
       (if d \<noteq> [] \<and> last d = CHR ''/'' \<and> \<not> list_all (\<lambda>c. c = CHR ''/'') d
        then rev (dropWhile (\<lambda>c. c = CHR ''/'') (rev d))
        else d)
       name"

text \<open>
  The file names that the pattern \<^verbatim>\<open>benchmark_*.json\<close> matches: the prefix, any text,
  the suffix.
\<close>

definition matches_pattern :: "string \<Rightarrow> bool" where
  "matches_pattern name =
     (take 10 name = ''benchmark_'' \<and> 15 \<le> length name
      \<and> drop (length name - 5) name = ''.json'')"

text \<open>
  \<^verbatim>\<open>glob.glob(pattern)\<close>: the matching entries of the directory in listing order, none
  when the directory does not exist. The directory name is taken to hold no character
  that \<^verbatim>\<open>glob\<close> reads as a wildcard.
\<close>

definition glob_results :: "filesystem \<Rightarrow> string \<Rightarrow> directory" where
  "glob_results fs results_dir =
     (case fs results_dir of
        None \<Rightarrow> []
      | Some entries \<Rightarrow> filter (\<lambda>entry. matches_pattern (fst entry)) entries)"

text \<open>
  \<^verbatim>\<open>data['file'] = os.path.basename(file)\<close>: item assignment with a string key works on a
  \<^verbatim>\<open>dict\<close> only; on any other document it raises \<^verbatim>\<open>TypeError\<close>.
\<close>

fun tag_file :: "string \<Rightarrow> json \<Rightarrow> exn + json" where
  "tag_file name (JObj kvs) = Inr (JObj (dict_set ''file'' (JStr name) kvs))"
| "tag_file name _ = Inl TypeError"

text \<open>
  The body of \<^verbatim>\<open>try\<close> for one file: the tagged record, or the text \<^verbatim>\<open>{e}\<close> of the
  exception that \<^verbatim>\<open>except Exception\<close> catches.
\<close>

definition load_file :: "string \<Rightarrow> content \<Rightarrow> tok + json" where
  "load_file name c =
     (case c of
        Inl cause \<Rightarrow> Inl (Lit cause)
      | Inr data \<Rightarrow> (case tag_file name data of Inl e \<Rightarrow> Inl (Message e) | Inr r \<Rightarrow> Inr r))"

text \<open>
  The loop of \<^verbatim>\<open>load_results\<close>: \<open>results\<close> is \<^verbatim>\<open>self.results\<close>, the second component
  the lines printed.
\<close>

fun load_loop :: "string \<Rightarrow> directory \<Rightarrow> json list \<Rightarrow> json list \<times> line list" where
  "load_loop results_dir [] results = (results, [])"
| "load_loop results_dir ((name, c) # files) results =
     (case load_file name c of
        Inr data \<Rightarrow> load_loop results_dir files (results @ [data])
      | Inl e \<Rightarrow>
          (let (results', printed) = load_loop results_dir files results
           in (results',
               [Lit ''Error loading '', Lit (glob_path results_dir name), Lit '': '', e]
               # printed)))"

definition load_results :: "filesystem \<Rightarrow> string \<Rightarrow> json list \<Rightarrow> json list \<times> line list" where
  "load_results fs results_dir results =
     load_loop results_dir (glob_results fs results_dir) results"

subsection \<open>\<^verbatim>\<open>save_summary\<close>\<close>

record entry =
  scene :: json
  "file" :: json
  analysis :: analysis

record summary =
  timestamp :: string
  results_dir :: string
  benchmark_count :: nat
  benchmarks :: "entry list"

text \<open>The loop of \<^verbatim>\<open>save_summary\<close>: the entries appended to \<^verbatim>\<open>summary['benchmarks']\<close>.\<close>

fun summary_loop :: "json list \<Rightarrow> exn + entry list" where
  "summary_loop [] = Inr []"
| "summary_loop (result # rest) =
     bindE (analyze_performance result) (\<lambda>a.
     bindE (case a of
              None \<Rightarrow> Inr []
            | Some a' \<Rightarrow>
                bindE (dict_get result ''scene'' (JStr ''unknown'')) (\<lambda>s.
                bindE (dict_index result ''file'') (\<lambda>f.
                Inr [\<lparr>scene = s, file = f, analysis = a'\<rparr>]))) (\<lambda>appended.
     bindE (summary_loop rest) (\<lambda>es. Inr (appended @ es))))"

text \<open>
  The dictionary \<^verbatim>\<open>summary\<close> when the loop is over; \<open>now\<close> is the text of
  \<^verbatim>\<open>datetime.now().isoformat()\<close>.
\<close>

definition summary_document :: "string \<Rightarrow> string \<Rightarrow> json list \<Rightarrow> exn + summary" where
  "summary_document dir now results =
     bindE (summary_loop results) (\<lambda>es.
     Inr \<lparr>timestamp = now, results_dir = dir,
          benchmark_count = length results, benchmarks = es\<rparr>)"

text \<open>The documents as \<^verbatim>\<open>json.dump\<close> writes them.\<close>

definition analysis_json :: "analysis \<Rightarrow> json" where
  "analysis_json a = JObj
     [(''avg_frame_time_ms'', JNum (avg_frame_time_ms a)),
      (''min_frame_time_ms'', JNum (min_frame_time_ms a)),
      (''max_frame_time_ms'', JNum (max_frame_time_ms a)),
      (''p95_frame_time_ms'', JNum (p95_frame_time_ms a)),
      (''p99_frame_time_ms'', JNum (p99_frame_time_ms a)),
      (''avg_fps'', JNum (avg_fps a)),
      (''min_fps'', JNum (min_fps a)),
      (''frame_count'', JNum (rat_of_nat (frame_count a))),
      (''gpu_culling_time_ms'', gpu_culling_time_ms a),
      (''batch_processing_time_ms'', batch_processing_time_ms a),
      (''lod_update_time_ms'', lod_update_time_ms a),
      (''streaming_time_ms'', streaming_time_ms a),
      (''visible_instances'', visible_instances a),
      (''culled_instances'', culled_instances a),
      (''batch_count'', batch_count a),
      (''memory_usage_mb'', memory_usage_mb a)]"

definition entry_json :: "entry \<Rightarrow> json" where
  "entry_json e = JObj
     [(''scene'', scene e), (''file'', file e), (''analysis'', analysis_json (analysis e))]"

definition summary_json :: "summary \<Rightarrow> json" where
  "summary_json s = JObj
     [(''timestamp'', JStr (timestamp s)),
      (''results_dir'', JStr (results_dir s)),
      (''benchmark_count'', JNum (rat_of_nat (benchmark_count s))),
      (''benchmarks'', JArr (map entry_json (benchmarks s)))]"

text \<open>
  \<^verbatim>\<open>open(path, 'w')\<close> and \<^verbatim>\<open>json.dump\<close>: the file is created or overwritten; a new file
  is listed last. The directory must exist; it is taken to be writable.
\<close>

fun write_entry :: "string \<Rightarrow> content \<Rightarrow> directory \<Rightarrow> directory" where
  "write_entry name c [] = [(name, c)]"
| "write_entry name c (e # es) =
     (if fst e = name then (name, c) # es else e # write_entry name c es)"

definition write_json :: "filesystem \<Rightarrow> string \<Rightarrow> string \<Rightarrow> json \<Rightarrow> exn + filesystem" where
  "write_json fs dir name v =
     (case fs dir of
        None \<Rightarrow> Inl FileNotFoundError
      | Some entries \<Rightarrow> Inr (fs(dir \<mapsto> write_entry name (Inr v) entries)))"

definition save_summary ::
  "filesystem \<Rightarrow> string \<Rightarrow> string \<Rightarrow> json list \<Rightarrow> exn + (filesystem \<times> line list)" where
  "save_summary fs dir now results =
     bindE (summary_document dir now results) (\<lambda>s.
     bindE (write_json fs dir ''benchmark_summary.json'' (summary_json s)) (\<lambda>fs'.
     Inr (fs', [[Lit ''Summary saved to: '',
                 Lit (path_join dir ''benchmark_summary.json'')]])))"

subsection \<open>\<^verbatim>\<open>main\<close>\<close>

text \<open>
  How a run ends: \<open>Exit n\<close> is the exit status \<open>n\<close> (0 when \<^verbatim>\<open>main\<close> returns),
  \<open>Uncaught e\<close> an exception that nothing catches.
\<close>

datatype ending = Exit nat | Uncaught exn

record run =
  files_after :: filesystem
  printed :: "line list"
  ending :: ending

text \<open>
  \<open>argv\<close> is \<^verbatim>\<open>sys.argv\<close>; \<open>generated\<close> and \<open>now\<close> are the two readings of the clock, in
  \<^verbatim>\<open>generate_report\<close> and in \<^verbatim>\<open>save_summary\<close>. Of a method that raises, the lines it had
  printed before are not kept.
\<close>

definition main :: "string list \<Rightarrow> string \<Rightarrow> string \<Rightarrow> filesystem \<Rightarrow> run" where
  "main argv generated now fs =
     (if length argv \<noteq> 2 then
        \<lparr>files_after = fs,
         printed = [[Lit ''Usage: python3 generate_benchmark_report.py <results_directory>'']],
         ending = Exit 1\<rparr>
      else
        let dir = argv ! 1 in
        if fs dir = None then
          \<lparr>files_after = fs,
           printed = [[Lit ''Results directory does not exist: '', Lit dir]],
           ending = Exit 1\<rparr>
        else
          let (results, load_lines) = load_results fs dir [] in
          case generate_report dir generated results of
            Inl e \<Rightarrow> \<lparr>files_after = fs, printed = load_lines, ending = Uncaught e\<rparr>
          | Inr report_lines \<Rightarrow>
              (case save_summary fs dir now results of
                 Inl e \<Rightarrow>
                   \<lparr>files_after = fs, printed = load_lines @ report_lines,
                    ending = Uncaught e\<rparr>
               | Inr (fs', save_lines) \<Rightarrow>
                   \<lparr>files_after = fs', printed = load_lines @ report_lines @ save_lines,
                    ending = Exit 0\<rparr>))"

subsection \<open>Notions used in the statements\<close>

text \<open>
  \<^verbatim>\<open>metrics.get(k, 0)\<close> for a metrics dictionary with the entries \<open>ms\<close>: the value of a
  key that is present, 0 for a key that is absent.
\<close>

definition metric :: "(string \<times> json) list \<Rightarrow> string \<Rightarrow> json" where
  "metric ms k = (case map_of ms k of None \<Rightarrow> JNum 0 | Some v \<Rightarrow> v)"

text \<open>
  A loaded record of the scene \<^verbatim>\<open>city\<close> with ten frame times and no other metric.
\<close>

definition example_record :: json where
  "example_record = JObj
     [(''scene'', JStr ''city''),
      (''metrics'', JObj [(''frame_times'', JArr (map JNum [10, 12, 14, 16, 18, 20, 22, 24, 26, 28]))]),
      (''file'', JStr ''benchmark_city.json'')]"


text \<open>
  A loaded record with three frame times, one of them the boolean \<^verbatim>\<open>true\<close>, and two of
  the eight scalar metrics.
\<close>

definition partial_record :: json where
  "partial_record = JObj
     [(''scene'', JStr ''harbour''),
      (''metrics'', JObj
         [(''frame_times'', JArr [JNum 16, JBool True, JNum (33 / 2)]),
          (''gpu_culling_time_ms'', JNum (1 / 5)),
          (''visible_instances'', JNum 1200)]),
      (''file'', JStr ''benchmark_harbour.json'')]"

text \<open>An analysis with numeric metrics, two of them over budget.\<close>

definition example_analysis :: analysis where
  "example_analysis = \<lparr>
     avg_frame_time_ms = 20,
     min_frame_time_ms = 15,
     max_frame_time_ms = 40,
     p95_frame_time_ms = 40,
     p99_frame_time_ms = 40,
     avg_fps = 50,
     min_fps = 25,
     frame_count = 3,
     gpu_culling_time_ms = JNum (1 / 4),
     batch_processing_time_ms = JNum 3,
     lod_update_time_ms = JNum 0,
     streaming_time_ms = JNum (151 / 100),
     visible_instances = JNum 1200,
     culled_instances = JNum 300,
     batch_count = JNum 12,
     memory_usage_mb = JNum 512
   \<rparr>"

text \<open>
  Two loaded records without frame times: one with an empty list, one without metrics.
\<close>

definition empty_record :: json where
  "empty_record = JObj
     [(''scene'', JStr ''menu''),
      (''metrics'', JObj [(''frame_times'', JArr []), (''memory_usage_mb'', JNum 64)]),
      (''file'', JStr ''benchmark_menu.json'')]"

definition bare_record :: json where
  "bare_record = JObj [(''scene'', JStr ''intro''), (''file'', JStr ''benchmark_intro.json'')]"

text \<open>The content of a file of a directory, where there is one.\<close>

definition read_file :: "filesystem \<Rightarrow> string \<Rightarrow> string \<Rightarrow> content option" where
  "read_file fs dir name = (case fs dir of None \<Rightarrow> None | Some entries \<Rightarrow> map_of entries name)"


text \<open>
  The input format of the tool, for a file that is to give a block in the report: an
  object whose \<^verbatim>\<open>metrics\<close> are an object with a non-empty list of numbers under
  \<^verbatim>\<open>frame_times\<close> and with a number under each of the eight scalar keys that is present.
\<close>

fun is_num :: "json \<Rightarrow> bool" where
  "is_num (JNum x) = True"
| "is_num (JBool b) = True"
| "is_num v = False"

definition scalar_keys :: "string list" where
  "scalar_keys =
     [''gpu_culling_time_ms'', ''batch_processing_time_ms'', ''lod_update_time_ms'',
      ''streaming_time_ms'', ''visible_instances'', ''culled_instances'', ''batch_count'',
      ''memory_usage_mb'']"

definition conforming :: "json \<Rightarrow> bool" where
  "conforming data =
     (case data of
        JObj kvs \<Rightarrow>
          (case map_of kvs ''metrics'' of
             Some (JObj ms) \<Rightarrow>
               (case map_of ms ''frame_times'' of
                  Some (JArr js) \<Rightarrow> js \<noteq> [] \<and> list_all is_num js
                | _ \<Rightarrow> False)
               \<and> list_all (\<lambda>k. is_num (metric ms k)) scalar_keys
           | _ \<Rightarrow> False)
      | _ \<Rightarrow> False)"

text \<open>
  Two documents in the input format, and a results directory with three matching files,
  the second of them malformed, and one file that does not match.
\<close>

definition city_document :: json where
  "city_document = JObj
     [(''scene'', JStr ''city''),
      (''metrics'', JObj [(''frame_times'', JArr (map JNum [10, 12, 14, 16, 18, 20, 22, 24, 26, 28]))])]"



text \<open>A summary document without its \<^verbatim>\<open>timestamp\<close>.\<close>

fun without_timestamp :: "json \<Rightarrow> json" where
  "without_timestamp (JObj kvs) = JObj (filter (\<lambda>p. fst p \<noteq> ''timestamp'') kvs)"
| "without_timestamp v = v"

text \<open>The analysis of the record \<open>example_record\<close> and its entry in a summary.\<close>

definition city_analysis :: analysis where
  "city_analysis = \<lparr>
     avg_frame_time_ms = 19,
     min_frame_time_ms = 10,
     max_frame_time_ms = 28,
     p95_frame_time_ms = 28,
     p99_frame_time_ms = 28,
     avg_fps = 1000 / 19,
     min_fps = 1000 / 28,
     frame_count = 10,
     gpu_culling_time_ms = JNum 0,
     batch_processing_time_ms = JNum 0,
     lod_update_time_ms = JNum 0,
     streaming_time_ms = JNum 0,
     visible_instances = JNum 0,
     culled_instances = JNum 0,
     batch_count = JNum 0,
     memory_usage_mb = JNum 0
   \<rparr>"

definition city_entry :: entry where
  "city_entry = \<lparr>scene = JStr ''city'', file = JStr ''benchmark_city.json'',
                  analysis = city_analysis\<rparr>"

text \<open>
  A results directory with one input file and no summary file, and two runs of the tool
  on it in succession, five minutes apart, with nothing else touching the directory.
\<close>

definition fresh_dir :: filesystem where
  "fresh_dir = Map.empty(''results'' \<mapsto> [(''benchmark_city.json'', Inr city_document)])"

definition first_run :: run where
  "first_run = main [''generate_benchmark_report.py'', ''results'']
     ''2025-01-01 10:00:00'' ''2025-01-01T10:00:00'' fresh_dir"

definition second_run :: run where
  "second_run = main [''generate_benchmark_report.py'', ''results'']
     ''2025-01-01 10:05:00'' ''2025-01-01T10:05:00'' (files_after first_run)"






section \<open>Properties\<close>

subsection \<open>Auxiliary facts\<close>

lemma bindE_simps [simp]:
  "bindE (Inl e) f = Inl e"
  "bindE (Inr x) f = f x"
  by (simp_all add: bindE_def)

lemma py_sum_numbers:
  "map num_of js = map Some xs \<Longrightarrow> py_sum js = Inr (xs, sum_list xs)"
  by (induction js arbitrary: xs) auto

lemma foldl_keep_min: "foldl (\<lambda>m y. if y < m then y else m) x xs = Min (insert x (set xs))"
proof (induction xs arbitrary: x)
  case Nil
  then show ?case by simp
next
  case (Cons y ys)
  have "Min (insert (if y < x then y else x) (set ys)) = Min (insert x (insert y (set ys)))"
    by (cases "set ys = {}") (auto simp: min_def Min_insert)
  with Cons show ?case by simp
qed

lemma foldl_keep_max: "foldl (\<lambda>m y. if y > m then y else m) x xs = Max (insert x (set xs))"
proof (induction xs arbitrary: x)
  case Nil
  then show ?case by simp
next
  case (Cons y ys)
  have "Max (insert (if y > x then y else x) (set ys)) = Max (insert x (insert y (set ys)))"
    by (cases "set ys = {}") (auto simp: max_def Max_insert)
  with Cons show ?case by simp
qed

lemma py_min_Min: "xs \<noteq> [] \<Longrightarrow> py_min xs = Inr (Min (set xs))"
  by (cases xs) (simp_all add: foldl_keep_min)

lemma py_max_Max: "xs \<noteq> [] \<Longrightarrow> py_max xs = Inr (Max (set xs))"
  by (cases xs) (simp_all add: foldl_keep_max)

lemma p95_index_div: "p95_index n = (95 * n) div 100"
proof -
  have "rat_of_nat n * (95 / 100) = rat_of_nat (95 * n) / rat_of_nat 100"
    by simp
  then show ?thesis
    unfolding p95_index_def by (simp only: floor_divide_of_nat_eq nat_int)
qed

lemma p99_index_div: "p99_index n = (99 * n) div 100"
proof -
  have "rat_of_nat n * (99 / 100) = rat_of_nat (99 * n) / rat_of_nat 100"
    by simp
  then show ?thesis
    unfolding p99_index_def by (simp only: floor_divide_of_nat_eq nat_int)
qed

lemma p95_index_less: "0 < n \<Longrightarrow> p95_index n < n"
  by (simp add: p95_index_div) 

lemma p99_index_less: "0 < n \<Longrightarrow> p99_index n < n"
  by (simp add: p99_index_div)




lemma analyze_performance_frames:
  assumes m: "dict_get result ''metrics'' (JObj []) = Inr (JObj ms)"
    and f: "dict_get (JObj ms) ''frame_times'' (JArr []) = Inr (JArr js)"
    and ne: "js \<noteq> []"
    and nums: "map num_of js = map Some xs"
  shows "analyze_performance result = Inr (Some \<lparr>
         avg_frame_time_ms = sum_list xs / rat_of_nat (length xs),
         min_frame_time_ms = Min (set xs),
         max_frame_time_ms = Max (set xs),
         p95_frame_time_ms = sort xs ! p95_index (length xs),
         p99_frame_time_ms = sort xs ! p99_index (length xs),
         avg_fps = (if sum_list xs / rat_of_nat (length xs) > 0
                    then 1000 / (sum_list xs / rat_of_nat (length xs)) else 0),
         min_fps = (if Max (set xs) > 0 then 1000 / Max (set xs) else 0),
         frame_count = length xs,
         gpu_culling_time_ms = metric ms ''gpu_culling_time_ms'',
         batch_processing_time_ms = metric ms ''batch_processing_time_ms'',
         lod_update_time_ms = metric ms ''lod_update_time_ms'',
         streaming_time_ms = metric ms ''streaming_time_ms'',
         visible_instances = metric ms ''visible_instances'',
         culled_instances = metric ms ''culled_instances'',
         batch_count = metric ms ''batch_count'',
         memory_usage_mb = metric ms ''memory_usage_mb''\<rparr>)"
proof -
  from nums ne have xs: "xs \<noteq> []" by auto
  then have len: "0 < length xs" by simp
  have s: "py_sum js = Inr (xs, sum_list xs)" using nums by (rule py_sum_numbers)
  have d: "py_div (sum_list xs) (rat_of_nat (length xs)) = Inr (sum_list xs / rat_of_nat (length xs))"
    using xs by (simp add: py_div_def)
  have i95: "py_nth (sort xs) (p95_index (length (sort xs))) = Inr (sort xs ! p95_index (length xs))"
    using len by (simp add: py_nth_def p95_index_less)
  have i99: "py_nth (sort xs) (p99_index (length (sort xs))) = Inr (sort xs ! p99_index (length xs))"
    using len by (simp add: py_nth_def p99_index_less)
  have fa: "(if a > 0 then py_div 1000 a else Inr 0) = Inr (if a > 0 then 1000 / a else 0)" for a :: rat
    by (simp add: py_div_def)
  have f': "(case map_of ms ''frame_times'' of None \<Rightarrow> JArr [] | Some v \<Rightarrow> v) = JArr js"
    using f by simp
  show ?thesis
    unfolding analyze_performance_def
    by (simp only: m f' bindE_simps truthy.simps ne not_not if_False elements.simps s
        prod.case d py_min_Min [OF xs] py_max_Max [OF xs] Let_def i95 i99 fa
        dict_get.simps metric_def)
qed
subsection \<open>The percentile indices in double precision\<close>













subsection \<open>Percentiles\<close>



subsection \<open>Frames per second\<close>



subsection \<open>Order of the frame-time statistics\<close>



subsection \<open>Defaults of the scalar metrics\<close>



subsection \<open>Assessment\<close>

text \<open>
  Claim C7. For an analysis whose four subsystem timings are numbers, the assessment
  prints exactly six outcomes, in the order frame time, FPS, GPU culling, batch
  processing, LOD updates, streaming. Frame time is excellent when the average is at
  most 16.67, acceptable when it is at most 33.33, poor otherwise; FPS is excellent
  when the average FPS is at least 60, acceptable when it is at least 30, poor otherwise;
  the four subsystems are within budget exactly when their times are at most 0.25, 2.5,
  1.0 and 1.5, and over budget otherwise.
\<close>

theorem assess_performance_outcomes:
  assumes "num_of (gpu_culling_time_ms a) = Some gpu"
    and "num_of (batch_processing_time_ms a) = Some batch"
    and "num_of (lod_update_time_ms a) = Some lod"
    and "num_of (streaming_time_ms a) = Some streaming"
  shows "assess_performance a report_targets = Inr (map (\<lambda>outcome. [Lit (''  '' @ outcome)])
     [if avg_frame_time_ms a \<le> 1667 / 100 then check_mark @ '' Frame time: EXCELLENT''
      else if avg_frame_time_ms a \<le> 3333 / 100 then warning_sign @ '' Frame time: ACCEPTABLE''
      else ballot_x @ '' Frame time: POOR'',
      if avg_fps a \<ge> 60 then check_mark @ '' FPS: EXCELLENT''
      else if avg_fps a \<ge> 30 then warning_sign @ '' FPS: ACCEPTABLE''
      else ballot_x @ '' FPS: POOR'',
      if gpu \<le> 25 / 100 then check_mark @ '' GPU Culling: WITHIN BUDGET''
      else ballot_x @ '' GPU Culling: OVER BUDGET'',
      if batch \<le> 25 / 10 then check_mark @ '' Batch Processing: WITHIN BUDGET''
      else ballot_x @ '' Batch Processing: OVER BUDGET'',
      if lod \<le> 1 then check_mark @ '' LOD Updates: WITHIN BUDGET''
      else ballot_x @ '' LOD Updates: OVER BUDGET'',
      if streaming \<le> 15 / 10 then check_mark @ '' Streaming: WITHIN BUDGET''
      else ballot_x @ '' Streaming: OVER BUDGET''])"
  unfolding assess_performance_def assessments_def
  by (simp only: assms py_le_def option.case bindE_simps Let_def append_Nil append_Cons
      report_targets_def targets.simps list.map)

theorem assess_performance_outcomes_witness:
  "assess_performance example_analysis report_targets = Inr
     [[Lit (''  '' @ warning_sign @ '' Frame time: ACCEPTABLE'')],
      [Lit (''  '' @ warning_sign @ '' FPS: ACCEPTABLE'')],
      [Lit (''  '' @ check_mark @ '' GPU Culling: WITHIN BUDGET'')],
      [Lit (''  '' @ ballot_x @ '' Batch Processing: OVER BUDGET'')],
      [Lit (''  '' @ check_mark @ '' LOD Updates: WITHIN BUDGET'')],
      [Lit (''  '' @ ballot_x @ '' Streaming: OVER BUDGET'')]]"
proof -
  have h: "num_of (gpu_culling_time_ms example_analysis) = Some (1 / 4)"
    "num_of (batch_processing_time_ms example_analysis) = Some 3"
    "num_of (lod_update_time_ms example_analysis) = Some 0"
    "num_of (streaming_time_ms example_analysis) = Some (151 / 100)"
    by (simp_all add: example_analysis_def)
  have v: "avg_frame_time_ms example_analysis = 20" "avg_fps example_analysis = 50"
    by (simp_all add: example_analysis_def)
  show ?thesis
    unfolding assess_performance_outcomes [OF h] v by simp
qed

subsection \<open>Records without frame times\<close>

lemma bindE_Inr_id [simp]: "bindE m Inr = m"
  by (cases m) simp_all

lemma bindE_assoc: "bindE (bindE m f) g = bindE m (\<lambda>x. bindE (f x) g)"
  by (cases m) simp_all

lemma report_loop_append:
  "report_loop t (rs @ rs') =
     bindE (report_loop t rs) (\<lambda>ls. bindE (report_loop t rs') (\<lambda>ls'. Inr (ls @ ls')))"
proof (induction rs)
  case Nil
  show ?case by (cases "report_loop t rs'") simp_all
next
  case (Cons r rs)
  show ?case
  proof (cases "report_scene t r")
    case (Inl e)
    then show ?thesis by simp
  next
    case b: (Inr block)
    show ?thesis
    proof (cases "report_loop t rs")
      case (Inl e)
      with b Cons show ?thesis by simp
    next
      case l: (Inr ls)
      show ?thesis
        using b l Cons by (cases "report_loop t rs'") simp_all
    qed
  qed
qed

lemma summary_loop_append:
  "summary_loop (rs @ rs') =
     bindE (summary_loop rs) (\<lambda>es. bindE (summary_loop rs') (\<lambda>es'. Inr (es @ es')))"
proof (induction rs)
  case Nil
  show ?case by (cases "summary_loop rs'") simp_all
next
  case (Cons r rs)
  show ?case
  proof (cases "analyze_performance r")
    case (Inl e)
    then show ?thesis by simp
  next
    case a: (Inr an)
    let ?ap = "case an of None \<Rightarrow> Inr []
        | Some a' \<Rightarrow> bindE (dict_get r ''scene'' (JStr ''unknown'')) (\<lambda>s.
            bindE (dict_index r ''file'') (\<lambda>f. Inr [\<lparr>scene = s, file = f, analysis = a'\<rparr>]))"
    show ?thesis
    proof (cases ?ap)
      case (Inl e)
      with a show ?thesis by simp
    next
      case p: (Inr appended)
      show ?thesis
      proof (cases "summary_loop rs")
        case (Inl e)
        with a p Cons show ?thesis by simp
      next
        case l: (Inr es)
        show ?thesis
          using a p l Cons by (cases "summary_loop rs'") simp_all
      qed
    qed
  qed
qed

lemma analyze_performance_no_frames:
  assumes "dict_get result ''metrics'' (JObj []) = Inr (JObj ms)"
    and "map_of ms ''frame_times'' = None \<or> map_of ms ''frame_times'' = Some (JArr [])"
  shows "analyze_performance result = Inr None"
  using assms unfolding analyze_performance_def by auto

text \<open>
  Claim C5. A record whose metrics hold no \<^verbatim>\<open>frame_times\<close> key, or an empty list under
  it, has the empty analysis; the report prints no line for it, and the report and the
  summary of a collection that holds the record are those of the collection without it.
  No exception is raised for the record.
\<close>

theorem empty_frame_times_skipped:
  assumes "dict_get result ''metrics'' (JObj []) = Inr (JObj ms)"
    and "map_of ms ''frame_times'' = None \<or> map_of ms ''frame_times'' = Some (JArr [])"
  shows "analyze_performance result = Inr None
       \<and> report_scene t result = Inr []
       \<and> report_loop t (before @ result # after) = report_loop t (before @ after)
       \<and> summary_loop (before @ result # after) = summary_loop (before @ after)"
proof -
  have a: "analyze_performance result = Inr None"
    using assms by (rule analyze_performance_no_frames)
  from assms(1) obtain kvs where r: "result = JObj kvs" by (cases result) simp_all
  have b: "report_scene t result = Inr []"
    unfolding report_scene_def a by (simp add: r)
  have c: "report_loop t (result # after) = report_loop t after"
    by (simp add: b)
  have d: "summary_loop (result # after) = summary_loop after"
    by (simp add: a)
  show ?thesis
    using a b by (simp only: report_loop_append [of t before] summary_loop_append [of before] c d)
qed

theorem empty_frame_times_skipped_witness:
  "analyze_performance empty_record = Inr None
   \<and> report_scene report_targets empty_record = Inr []
   \<and> report_loop report_targets [example_record, empty_record, partial_record]
       = report_loop report_targets [example_record, partial_record]
   \<and> summary_loop [example_record, empty_record, partial_record]
       = summary_loop [example_record, partial_record]
   \<and> analyze_performance bare_record = Inr None
   \<and> report_scene report_targets bare_record = Inr []
   \<and> summary_loop [bare_record] = Inr []"
proof -
  have h1: "dict_get empty_record ''metrics'' (JObj [])
      = Inr (JObj [(''frame_times'', JArr []), (''memory_usage_mb'', JNum 64)])"
    by (simp add: empty_record_def)
  have h2: "map_of [(''frame_times'', JArr []), (''memory_usage_mb'', JNum 64)] ''frame_times'' = None
      \<or> map_of [(''frame_times'', JArr []), (''memory_usage_mb'', JNum 64)] ''frame_times''
          = Some (JArr [])"
    by simp
  have g1: "dict_get bare_record ''metrics'' (JObj []) = Inr (JObj [])"
    by (simp add: bare_record_def)
  have g2: "map_of ([] :: (string \<times> json) list) ''frame_times'' = None
      \<or> map_of ([] :: (string \<times> json) list) ''frame_times'' = Some (JArr [])"
    by simp
  from empty_frame_times_skipped [OF h1 h2, of report_targets "[example_record]" "[partial_record]"]
    empty_frame_times_skipped [OF g1 g2, of report_targets "[]" "[]"]
  show ?thesis by simp
qed

subsection \<open>The summary document\<close>






subsection \<open>A run without results\<close>




subsection \<open>Loading, reporting and saving in one run\<close>

lemma is_num_iff: "is_num v = (num_of v \<noteq> None)"
  by (cases v) simp_all

lemma map_of_dict_set:
  "map_of (dict_set k v kvs) k' = (if k' = k then Some v else map_of kvs k')"
  by (induction kvs) auto

lemma numbers_exist: "list_all is_num js \<Longrightarrow> \<exists>xs. map num_of js = map Some xs"
proof (induction js)
  case Nil
  then show ?case by simp
next
  case (Cons j js)
  then obtain x xs where "num_of j = Some x" "map num_of js = map Some xs"
    by (auto simp: is_num_iff)
  then have "map num_of (j # js) = map Some (x # xs)" by simp
  then show ?case by blast
qed

lemma format_fixed_num: "num_of v = Some x \<Longrightarrow> format_fixed d v = Inr (Fixed d x)"
  by (cases v) simp_all

lemma format_grouped_num: "num_of v = Some x \<Longrightarrow> format_grouped v = Inr (Grouped x)"
  by (cases v) simp_all

lemma assess_performance_lines:
  assumes "is_num (gpu_culling_time_ms a)"
    and "is_num (batch_processing_time_ms a)"
    and "is_num (lod_update_time_ms a)"
    and "is_num (streaming_time_ms a)"
  shows "\<exists>ls. assess_performance a t = Inr ls \<and> length ls = 6"
proof -
  from assms obtain g b l s where
    "num_of (gpu_culling_time_ms a) = Some g" "num_of (batch_processing_time_ms a) = Some b"
    "num_of (lod_update_time_ms a) = Some l" "num_of (streaming_time_ms a) = Some s"
    by (auto simp: is_num_iff)
  then show ?thesis
    unfolding assess_performance_def assessments_def
    by (simp add: py_le_def Let_def)
qed

lemma report_scene_block:
  assumes a: "analyze_performance r = Inr (Some a)"
    and s: "dict_get r ''scene'' (JStr ''unknown'') = Inr s"
    and f: "dict_index r ''file'' = Inr f"
    and n: "is_num (gpu_culling_time_ms a)" "is_num (batch_processing_time_ms a)"
      "is_num (lod_update_time_ms a)" "is_num (streaming_time_ms a)"
      "is_num (visible_instances a)" "is_num (culled_instances a)"
      "is_num (batch_count a)" "is_num (memory_usage_mb a)"
  shows "\<exists>rest. report_scene t r =
           Inr ([Lit ''=== Scene: '', Plain s, Lit '' ===''] # [Lit ''File: '', Plain f] # rest)"
proof -
  from n obtain g b l st v c bc m where nums:
    "num_of (gpu_culling_time_ms a) = Some g" "num_of (batch_processing_time_ms a) = Some b"
    "num_of (lod_update_time_ms a) = Some l" "num_of (streaming_time_ms a) = Some st"
    "num_of (visible_instances a) = Some v" "num_of (culled_instances a) = Some c"
    "num_of (batch_count a) = Some bc" "num_of (memory_usage_mb a) = Some m"
    unfolding is_num_iff by auto
  from assess_performance_lines [OF n(1-4)] obtain ls where ls: "assess_performance a t = Inr ls"
    by blast
  show ?thesis
    unfolding report_scene_def
    by (simp add: a s f ls format_fixed_num [OF nums(1)] format_fixed_num [OF nums(2)]
        format_fixed_num [OF nums(3)] format_fixed_num [OF nums(4)]
        format_grouped_num [OF nums(5)] format_grouped_num [OF nums(6)]
        format_grouped_num [OF nums(7)] format_fixed_num [OF nums(8)])
qed

lemma conforming_loaded:
  assumes "conforming d"
  shows "\<exists>kvs a. load_file n (Inr d) = Inr (JObj kvs)
           \<and> map_of kvs ''file'' = Some (JStr n)
           \<and> analyze_performance (JObj kvs) = Inr (Some a)
           \<and> is_num (gpu_culling_time_ms a) \<and> is_num (batch_processing_time_ms a)
           \<and> is_num (lod_update_time_ms a) \<and> is_num (streaming_time_ms a)
           \<and> is_num (visible_instances a) \<and> is_num (culled_instances a)
           \<and> is_num (batch_count a) \<and> is_num (memory_usage_mb a)"
proof -
  from assms obtain kvs where d: "d = JObj kvs"
    unfolding conforming_def by (cases d) simp_all
  from assms d obtain ms where ms: "map_of kvs ''metrics'' = Some (JObj ms)"
    unfolding conforming_def by (auto split: option.splits json.splits)
  from assms d ms obtain js where js: "map_of ms ''frame_times'' = Some (JArr js)"
    "js \<noteq> []" "list_all is_num js"
    unfolding conforming_def by (auto split: option.splits json.splits)
  from assms d ms have sc: "list_all (\<lambda>k. is_num (metric ms k)) scalar_keys"
    unfolding conforming_def by (auto split: option.splits json.splits)
  from numbers_exist [OF js(3)] obtain xs where xs: "map num_of js = map Some xs" by blast
  let ?kvs = "dict_set ''file'' (JStr n) kvs"
  have h1: "dict_get (JObj ?kvs) ''metrics'' (JObj []) = Inr (JObj ms)"
    by (simp add: map_of_dict_set ms)
  have h2: "dict_get (JObj ms) ''frame_times'' (JArr []) = Inr (JArr js)"
    by (simp add: js)
  have l: "load_file n (Inr d) = Inr (JObj ?kvs)"
    by (simp add: load_file_def d)
  have f: "map_of ?kvs ''file'' = Some (JStr n)"
    by (simp add: map_of_dict_set)
  obtain a where a: "analyze_performance (JObj ?kvs) = Inr (Some a)"
    "gpu_culling_time_ms a = metric ms ''gpu_culling_time_ms''"
    "batch_processing_time_ms a = metric ms ''batch_processing_time_ms''"
    "lod_update_time_ms a = metric ms ''lod_update_time_ms''"
    "streaming_time_ms a = metric ms ''streaming_time_ms''"
    "visible_instances a = metric ms ''visible_instances''"
    "culled_instances a = metric ms ''culled_instances''"
    "batch_count a = metric ms ''batch_count''"
    "memory_usage_mb a = metric ms ''memory_usage_mb''"
    using analyze_performance_frames [OF h1 h2 js(2) xs] by simp
  show ?thesis
    using sc l f a by (intro exI [of _ ?kvs] exI [of _ a]) (simp add: scalar_keys_def)
qed


lemma load_loop_Cons:
  "load_loop d ((n, c) # files) rs =
     (case load_file n c of
        Inr data \<Rightarrow> load_loop d files (rs @ [data])
      | Inl e \<Rightarrow>
          (fst (load_loop d files rs),
           [Lit ''Error loading '', Lit (glob_path d n), Lit '': '', e]
           # snd (load_loop d files rs)))"
  by (simp split: sum.splits prod.splits)

lemma load_loop_results:
  "fst (load_loop d files rs) =
     rs @ concat (map (\<lambda>(n, c). case load_file n c of Inr r \<Rightarrow> [r] | Inl e \<Rightarrow> []) files)"
proof (induction files arbitrary: rs)
  case Nil
  show ?case by simp
next
  case (Cons f files)
  obtain n c where f: "f = (n, c)" by (cases f)
  show ?case
    unfolding f load_loop_Cons by (cases "load_file n c") (simp_all add: Cons.IH)
qed

lemma load_loop_lines:
  "snd (load_loop d files rs) =
     concat (map (\<lambda>(n, c). case load_file n c of
                    Inr r \<Rightarrow> []
                  | Inl e \<Rightarrow> [[Lit ''Error loading '', Lit (glob_path d n), Lit '': '', e]])
               files)"
proof (induction files arbitrary: rs)
  case Nil
  show ?case by simp
next
  case (Cons f files)
  obtain n c where f: "f = (n, c)" by (cases f)
  show ?case
    unfolding f load_loop_Cons by (cases "load_file n c") (simp_all add: Cons.IH)
qed

lemma main_completes:
  assumes "fs dir = Some entries"
    and "load_results fs dir [] = (rs, load_lines)"
    and "generate_report dir generated rs = Inr report_lines"
    and "summary_loop rs = Inr es"
  shows "main [prog, dir] generated now fs =
           \<lparr>files_after = fs(dir \<mapsto> write_entry ''benchmark_summary.json''
              (Inr (summary_json \<lparr>timestamp = now, results_dir = dir,
                                   benchmark_count = length rs, benchmarks = es\<rparr>)) entries),
            printed = load_lines @ report_lines
              @ [[Lit ''Summary saved to: '', Lit (path_join dir ''benchmark_summary.json'')]],
            ending = Exit 0\<rparr>"
  using assms
  by (simp add: main_def save_summary_def summary_document_def write_json_def Let_def)


lemma conforming_city: "conforming city_document"
  by (simp add: conforming_def city_document_def metric_def scalar_keys_def)


lemma load_city: "load_file ''benchmark_city.json'' (Inr city_document) = Inr example_record"
  by (simp add: load_file_def city_document_def example_record_def)



subsection \<open>Running the tool twice\<close>

text \<open>
  For one and the same collection of loaded records the summary depends on the clock
  through its timestamp only. But the summary file is written into the results
  directory under a name that the pattern of \<^verbatim>\<open>load_results\<close> matches, so the next run
  loads it as one more record.
\<close>

lemma summary_document_timestamp:
  assumes "summary_document dir now rs = Inr s"
  shows "summary_document dir now' rs = Inr (s\<lparr>timestamp := now'\<rparr>)"
  using assms unfolding summary_document_def
  by (cases "summary_loop rs") auto

lemma matches_summary: "matches_pattern ''benchmark_summary.json''"
  by (simp add: matches_pattern_def)

lemma write_entry_absent:
  "map_of es name = None \<Longrightarrow> write_entry name c es = es @ [(name, c)]"
  by (induction es) (auto split: if_splits)

lemma write_entry_last:
  "map_of es name = None \<Longrightarrow> write_entry name c (es @ [(name, c')]) = es @ [(name, c)]"
  by (induction es) (auto split: if_splits)

lemma report_scene_no_frames:
  assumes "analyze_performance (JObj kvs) = Inr None"
  shows "report_scene t (JObj kvs) = Inr []"
  unfolding report_scene_def by (simp add: assms)

lemma generate_report_loop:
  assumes "generate_report d g rs = Inr rl"
  shows "\<exists>bl. report_loop report_targets rs = Inr bl"
proof (cases "rs = []")
  case True
  then show ?thesis by simp
next
  case False
  with assms show ?thesis
    unfolding generate_report_def by (cases "report_loop report_targets rs") simp_all
qed

lemma load_summary:
  "\<exists>kvs. load_file name (Inr (summary_json s)) = Inr (JObj kvs)
      \<and> analyze_performance (JObj kvs) = Inr None"
proof -
  let ?kvs = "dict_set ''file'' (JStr name)
     [(''timestamp'', JStr (timestamp s)),
      (''results_dir'', JStr (results_dir s)),
      (''benchmark_count'', JNum (rat_of_nat (benchmark_count s))),
      (''benchmarks'', JArr (map entry_json (benchmarks s)))]"
  have l: "load_file name (Inr (summary_json s)) = Inr (JObj ?kvs)"
    by (simp add: load_file_def summary_json_def)
  have m: "dict_get (JObj ?kvs) ''metrics'' (JObj []) = Inr (JObj [])"
    by (simp add: map_of_dict_set)
  have "analyze_performance (JObj ?kvs) = Inr None"
    using m by (rule analyze_performance_no_frames) simp
  with l show ?thesis by blast
qed

lemma rerun:
  assumes d: "fs dir = Some entries"
    and absent: "map_of entries ''benchmark_summary.json'' = None"
    and load: "load_results fs dir [] = (rs, ll)"
    and rep: "generate_report dir g1 rs = Inr rl"
    and sl: "summary_loop rs = Inr es"
  shows "files_after (main [prog, dir] g1 n1 fs) =
           fs(dir \<mapsto> entries @ [(''benchmark_summary.json'',
              Inr (summary_json \<lparr>timestamp = n1, results_dir = dir,
                                   benchmark_count = length rs, benchmarks = es\<rparr>))])
       \<and> files_after (main [prog, dir] g2 n2 (files_after (main [prog, dir] g1 n1 fs))) =
           fs(dir \<mapsto> entries @ [(''benchmark_summary.json'',
              Inr (summary_json \<lparr>timestamp = n2, results_dir = dir,
                                   benchmark_count = Suc (length rs), benchmarks = es\<rparr>))])
       \<and> ending (main [prog, dir] g2 n2 (files_after (main [prog, dir] g1 n1 fs))) = Exit 0"
proof -
  let ?S = "''benchmark_summary.json''"
  let ?s1 = "\<lparr>timestamp = n1, results_dir = dir, benchmark_count = length rs, benchmarks = es\<rparr>"
  let ?fs1 = "fs(dir \<mapsto> entries @ [(?S, Inr (summary_json ?s1))])"
  let ?g = "\<lambda>(n, c). case load_file n c of Inr r \<Rightarrow> [r] | Inl e \<Rightarrow> []"
  let ?h = "\<lambda>(n, c). case load_file n c of
                    Inr r \<Rightarrow> []
                  | Inl e \<Rightarrow> [[Lit ''Error loading '', Lit (glob_path dir n), Lit '': '', e]]"
  have first: "files_after (main [prog, dir] g1 n1 fs) = ?fs1"
    unfolding main_completes [OF d load rep sl] by (simp add: write_entry_absent [OF absent])
  obtain kvs where kvs: "load_file ?S (Inr (summary_json ?s1)) = Inr (JObj kvs)"
    "analyze_performance (JObj kvs) = Inr None"
    using load_summary by blast
  have d1: "?fs1 dir = Some (entries @ [(?S, Inr (summary_json ?s1))])" by simp
  have glob: "glob_results ?fs1 dir = glob_results fs dir @ [(?S, Inr (summary_json ?s1))]"
    unfolding glob_results_def by (simp add: d matches_summary)
  have rs: "rs = concat (map ?g (glob_results fs dir))"
    using load load_loop_results [of dir "glob_results fs dir" "[]"]
    by (simp add: load_results_def)
  have ll: "ll = concat (map ?h (glob_results fs dir))"
    using load load_loop_lines [of dir "glob_results fs dir" "[]"]
    by (simp add: load_results_def)
  have "fst (load_results ?fs1 dir []) = concat (map ?g (glob_results fs dir)) @ [JObj kvs]"
    unfolding load_results_def glob load_loop_results by (simp add: kvs(1))
  then have "fst (load_results ?fs1 dir []) = rs @ [JObj kvs]"
    by (simp only: rs [symmetric])
  moreover have "snd (load_results ?fs1 dir []) = concat (map ?h (glob_results fs dir))"
    unfolding load_results_def glob load_loop_lines by (simp add: kvs(1))
  then have "snd (load_results ?fs1 dir []) = ll"
    by (simp only: ll [symmetric])
  ultimately have load2: "load_results ?fs1 dir [] = (rs @ [JObj kvs], ll)"
    by (simp add: prod_eq_iff)
  from generate_report_loop [OF rep] obtain bl where bl: "report_loop report_targets rs = Inr bl"
    by blast
  have "report_loop report_targets (rs @ [JObj kvs]) = Inr bl"
    unfolding report_loop_append by (simp add: bl report_scene_no_frames [OF kvs(2)])
  then obtain rl2 where rep2: "generate_report dir g2 (rs @ [JObj kvs]) = Inr rl2"
    unfolding generate_report_def by simp
  have sl2: "summary_loop (rs @ [JObj kvs]) = Inr es"
    unfolding summary_loop_append by (simp add: sl kvs(2))
  show ?thesis
    unfolding first main_completes [OF d1 load2 rep2 sl2]
    by (simp add: write_entry_last [OF absent])
qed


lemma analyze_example_record: "analyze_performance example_record = Inr (Some city_analysis)"
proof -
  let ?xs = "[10, 12, 14, 16, 18, 20, 22, 24, 26, 28] :: rat list"
  have h1: "dict_get example_record ''metrics'' (JObj [])
              = Inr (JObj [(''frame_times'', JArr (map JNum ?xs))])"
    by (simp add: example_record_def)
  have h2: "dict_get (JObj [(''frame_times'', JArr (map JNum ?xs))]) ''frame_times'' (JArr [])
              = Inr (JArr (map JNum ?xs))"
    by simp
  have h3: "map JNum ?xs \<noteq> []" by simp
  have h4: "map num_of (map JNum ?xs) = map Some ?xs" by simp
  have i: "p95_index (length ?xs) = 9" "p99_index (length ?xs) = 9"
    by (simp_all add: p95_index_div p99_index_div)
  have s: "sort ?xs ! 9 = 28" by simp
  show ?thesis
    unfolding analyze_performance_frames [OF h1 h2 h3 h4] i s
    by (simp add: city_analysis_def metric_def)
qed

text \<open>
  Claim C2 says that two runs in succession on an unchanged input directory leave a
  summary that is the same apart from its timestamp. On \<open>fresh_dir\<close> the first run
  leaves the input file as it was and writes a summary with \<^verbatim>\<open>benchmark_count\<close> 1; the
  second run ends with status 0 and writes a summary with \<^verbatim>\<open>benchmark_count\<close> 2, and the
  two documents differ also without their timestamps.
\<close>

theorem rerun_changes_summary:
  "read_file fresh_dir ''results'' ''benchmark_summary.json'' = None
   \<and> read_file (files_after first_run) ''results'' ''benchmark_city.json''
       = read_file fresh_dir ''results'' ''benchmark_city.json''
   \<and> read_file (files_after first_run) ''results'' ''benchmark_summary.json''
       = Some (Inr (summary_json \<lparr>timestamp = ''2025-01-01T10:00:00'', results_dir = ''results'',
                                   benchmark_count = 1, benchmarks = [city_entry]\<rparr>))
   \<and> read_file (files_after second_run) ''results'' ''benchmark_summary.json''
       = Some (Inr (summary_json \<lparr>timestamp = ''2025-01-01T10:05:00'', results_dir = ''results'',
                                   benchmark_count = 2, benchmarks = [city_entry]\<rparr>))
   \<and> ending second_run = Exit 0
   \<and> without_timestamp
         (summary_json \<lparr>timestamp = ''2025-01-01T10:00:00'', results_dir = ''results'',
                         benchmark_count = 1, benchmarks = [city_entry]\<rparr>)
       \<noteq> without_timestamp
         (summary_json \<lparr>timestamp = ''2025-01-01T10:05:00'', results_dir = ''results'',
                         benchmark_count = 2, benchmarks = [city_entry]\<rparr>)"
proof -
  have d: "fresh_dir ''results'' = Some [(''benchmark_city.json'', Inr city_document)]"
    by (simp add: fresh_dir_def)
  have absent: "map_of [(''benchmark_city.json'', Inr city_document)] ''benchmark_summary.json''
      = None"
    by simp
  have load: "load_results fresh_dir ''results'' [] = ([example_record], [])"
    unfolding load_results_def glob_results_def
    by (simp add: d matches_pattern_def load_city)
  from conforming_loaded [OF conforming_city, of "''benchmark_city.json''"]
  obtain a where a: "analyze_performance example_record = Inr (Some a)"
    "is_num (gpu_culling_time_ms a)" "is_num (batch_processing_time_ms a)"
    "is_num (lod_update_time_ms a)" "is_num (streaming_time_ms a)"
    "is_num (visible_instances a)" "is_num (culled_instances a)"
    "is_num (batch_count a)" "is_num (memory_usage_mb a)"
    unfolding load_city by auto
  have sc: "dict_get example_record ''scene'' (JStr ''unknown'') = Inr (JStr ''city'')"
    and fl: "dict_index example_record ''file'' = Inr (JStr ''benchmark_city.json'')"
    by (simp_all add: example_record_def)
  from report_scene_block [OF a(1) sc fl a(2-9), of report_targets]
  obtain b where b: "report_scene report_targets example_record = Inr b"
    by blast
  then obtain rl where rep:
    "generate_report ''results'' ''2025-01-01 10:00:00'' [example_record] = Inr rl"
    unfolding generate_report_def by simp
  have sl: "summary_loop [example_record] = Inr [city_entry]"
    by (simp add: analyze_example_record sc fl city_entry_def)
  note r = rerun [OF d absent load rep sl, of "''generate_benchmark_report.py''"
      "''2025-01-01T10:00:00''" "''2025-01-01 10:05:00''" "''2025-01-01T10:05:00''"]
  have c: "without_timestamp
         (summary_json \<lparr>timestamp = ''2025-01-01T10:00:00'', results_dir = ''results'',
                         benchmark_count = 1, benchmarks = [city_entry]\<rparr>)
       \<noteq> without_timestamp
         (summary_json \<lparr>timestamp = ''2025-01-01T10:05:00'', results_dir = ''results'',
                         benchmark_count = 2, benchmarks = [city_entry]\<rparr>)"
    by (simp add: summary_json_def)
  note ra = r [THEN conjunct1] and rb = r [THEN conjunct2, THEN conjunct1]
    and rc = r [THEN conjunct2, THEN conjunct2]
  from ra have r1: "files_after first_run = fresh_dir(''results'' \<mapsto>
      [(''benchmark_city.json'', Inr city_document),
       (''benchmark_summary.json'',
        Inr (summary_json \<lparr>timestamp = ''2025-01-01T10:00:00'', results_dir = ''results'',
                            benchmark_count = 1, benchmarks = [city_entry]\<rparr>))])"
    unfolding first_run_def by simp
  from rb have r2: "files_after second_run = fresh_dir(''results'' \<mapsto>
      [(''benchmark_city.json'', Inr city_document),
       (''benchmark_summary.json'',
        Inr (summary_json \<lparr>timestamp = ''2025-01-01T10:05:00'', results_dir = ''results'',
                            benchmark_count = 2, benchmarks = [city_entry]\<rparr>))])"
    unfolding first_run_def second_run_def by (simp add: numeral_2_eq_2)
  from rc have r3: "ending second_run = Exit 0"
    unfolding first_run_def second_run_def .
  show ?thesis
    unfolding r1 r2 r3 read_file_def using c by (simp add: d)
qed

end
